theory Spec2Isabelle
  imports Main
begin

section \<open>Data model\<close>

text \<open>
  The real-time relay of the music platform (\<^verbatim>\<open>spotify_backend/socketManager.js\<close>) and the
  accept route of the friend-request workflow (\<^verbatim>\<open>routes/friends\<close>) are embedded as pure
  functions over an explicit world: the process-wide \<^verbatim>\<open>connectedUsers\<close> map, the
  collections of the document database, the system clock and the outcome of every
  database call. Identifiers are the strings that \<^verbatim>\<open>ObjectId.toString()\<close> and
  \<^verbatim>\<open>socket.id\<close> yield; a \<^verbatim>\<open>Date\<close> is its number of milliseconds.
\<close>

type_synonym user_id = string
type_synonym socket_id = string
type_synonym song_id = string
type_synonym request_id = string
type_synonym time = int

text \<open>\<^verbatim>\<open>currentlyPlaying: { song, timestamp }\<close> of the user schema.\<close>

record playing =
  song :: "song_id option"
  timestamp :: time

text \<open>
  The fields of \<^verbatim>\<open>UserSchema\<close> that the relay and the friends routes read or write
  (the display fields, the friends array, presence and the current track).
\<close>

record user =
  username :: string
  firstName :: string
  lastName :: string
  profilePicture :: string
  friends :: "user_id list"
  currentlyPlaying :: "playing option"
  isOnline :: bool
  lastSeen :: time

text \<open>
  Modelled from the spec: \<^verbatim>\<open>models/ChatMessage.js\<close> is not among the sources. The message
  record has a sender identifier, a recipient identifier, a content and a creation
  timestamp. The recipient and the content are whatever the payload carried, so they
  are absent when the payload lacked them.
\<close>

record chat_message =
  sender :: user_id
  receiver :: "string option"
  content :: "string option"
  createdAt :: time

text \<open>
  What \<^verbatim>\<open>populate("sender", "username firstName lastName profilePicture")\<close> attaches: the
  selected fields of the sender's document, or nothing when that document is gone.
\<close>

record sender_view =
  view_id :: user_id
  view_username :: string
  view_firstName :: string
  view_lastName :: string
  view_profilePicture :: string

record delivered_message =
  stored :: chat_message
  sender_doc :: "sender_view option"

text \<open>
  Modelled from the spec: \<^verbatim>\<open>models/FriendRequest.js\<close> is not among the sources. The accept
  route uses a sender, a receiver and a status.
\<close>

record friend_request =
  req_sender :: user_id
  req_receiver :: user_id
  status :: string

text \<open>
  The payload object of an inbound socket event. A property the client did not send is
  \<^verbatim>\<open>undefined\<close>, here \<open>None\<close>. A payload that is itself \<^verbatim>\<open>undefined\<close> or \<^verbatim>\<open>null\<close> is
  \<open>None\<close> at the handler.
\<close>

record payload =
  receiverId :: "string option"
  msg_content :: "string option"
  songId :: "song_id option"

datatype out_event =
    FriendOnline user_id
  | FriendOffline user_id time
  | FriendCurrentlyPlaying user_id "song_id option" time
  | NewMessage delivered_message
  | MessageSent delivered_message
  | MessageError string
  | UserTyping user_id

text \<open>
  What a handler does to the outside, in order: \<open>Emit s e\<close> is
  \<^verbatim>\<open>io.to(s).emit(e)\<close> (or \<^verbatim>\<open>socket.emit(e)\<close> on the socket \<open>s\<close>), \<open>ConsoleError\<close> is
  \<^verbatim>\<open>console.error\<close>.
\<close>

datatype effect = Emit socket_id out_event | ConsoleError string

datatype error = TypeError | DbError

text \<open>
  How a handler ends: it returns (its promise resolves), or an exception leaves it
  that nothing in the handler catches.
\<close>

datatype completion = Normal | Uncaught error

text \<open>An HTTP response: status code and the message or error text of its JSON body.\<close>

datatype response = Status nat string

text \<open>
  The world. \<open>clock w k\<close> is what the \<open>k\<close>-th \<^verbatim>\<open>new Date()\<close> of the process returns and
  \<open>reads w\<close> counts the readings made so far; \<open>fault w k\<close> says whether the \<open>k\<close>-th
  database call of the process is rejected and \<open>calls w\<close> counts the calls made so far.
  Both are chosen by the environment.
\<close>

record world =
  connectedUsers :: "string \<rightharpoonup> socket_id"
  users :: "user_id \<rightharpoonup> user"
  messages :: "chat_message list"
  requests :: "request_id \<rightharpoonup> friend_request"
  clock :: "nat \<Rightarrow> time"
  reads :: nat
  fault :: "nat \<Rightarrow> bool"
  calls :: nat

section \<open>The clock and the database collaborator\<close>

definition new_Date :: "world \<Rightarrow> time \<times> world" where
  "new_Date w = (clock w (reads w), w\<lparr>reads := Suc (reads w)\<rparr>)"

definition db_call :: "world \<Rightarrow> bool \<times> world" where
  "db_call w = (fault w (calls w), w\<lparr>calls := Suc (calls w)\<rparr>)"

text \<open>
  \<^verbatim>\<open>User.findByIdAndUpdate(id, fields)\<close>: rejected, or the fields are set on the document
  when there is one (no document: nothing is written and the call resolves to null).
\<close>

definition User_findByIdAndUpdate ::
  "user_id \<Rightarrow> (user \<Rightarrow> user) \<Rightarrow> world \<Rightarrow> (error + unit) \<times> world" where
  "User_findByIdAndUpdate uid upd w =
     (let (failed, w1) = db_call w in
      if failed then (Inl DbError, w1)
      else (Inr (),
            case users w1 uid of
              None \<Rightarrow> w1
            | Some u \<Rightarrow> w1\<lparr>users := (users w1)(uid \<mapsto> upd u)\<rparr>))"

definition User_findById :: "user_id \<Rightarrow> world \<Rightarrow> (error + user option) \<times> world" where
  "User_findById uid w =
     (let (failed, w1) = db_call w in
      if failed then (Inl DbError, w1) else (Inr (users w1 uid), w1))"

text \<open>\<^verbatim>\<open>$addToSet\<close>: the value is appended unless the array already holds it.\<close>

definition addToSet :: "'a \<Rightarrow> 'a list \<Rightarrow> 'a list" where
  "addToSet x xs = (if x \<in> set xs then xs else xs @ [x])"

definition User_updateOne_addToSet_friends ::
  "user_id \<Rightarrow> user_id \<Rightarrow> world \<Rightarrow> (error + unit) \<times> world" where
  "User_updateOne_addToSet_friends uid x w =
     (let (failed, w1) = db_call w in
      if failed then (Inl DbError, w1)
      else (Inr (),
            case users w1 uid of
              None \<Rightarrow> w1
            | Some u \<Rightarrow> w1\<lparr>users := (users w1)(uid \<mapsto> u\<lparr>friends := addToSet x (friends u)\<rparr>)\<rparr>))"

definition FriendRequest_findById ::
  "request_id \<Rightarrow> world \<Rightarrow> (error + friend_request option) \<times> world" where
  "FriendRequest_findById rid w =
     (let (failed, w1) = db_call w in
      if failed then (Inl DbError, w1) else (Inr (requests w1 rid), w1))"

definition FriendRequest_save ::
  "request_id \<Rightarrow> friend_request \<Rightarrow> world \<Rightarrow> (error + unit) \<times> world" where
  "FriendRequest_save rid rq w =
     (let (failed, w1) = db_call w in
      if failed then (Inl DbError, w1)
      else (Inr (), w1\<lparr>requests := (requests w1)(rid \<mapsto> rq)\<rparr>))"

text \<open>
  Modelled from the spec: \<^verbatim>\<open>createMessage(senderId, recipientId, content) -> messageRecord | failure\<close>,
  persisting \<^verbatim>\<open>{sender, receiver, content, createdAt: now}\<close>. A rejected call stores nothing.
\<close>

definition ChatMessage_create ::
  "user_id \<Rightarrow> string option \<Rightarrow> string option \<Rightarrow> world \<Rightarrow> (error + chat_message) \<times> world" where
  "ChatMessage_create s r c w =
     (let (failed, w1) = db_call w in
      if failed then (Inl DbError, w1)
      else (let (now, w2) = new_Date w1;
                m = \<lparr>sender = s, receiver = r, content = c, createdAt = now\<rparr>
            in (Inr m, w2\<lparr>messages := messages w2 @ [m]\<rparr>)))"

definition view_of :: "user_id \<Rightarrow> user \<Rightarrow> sender_view" where
  "view_of uid u =
     \<lparr>view_id = uid, view_username = username u, view_firstName = firstName u,
      view_lastName = lastName u, view_profilePicture = profilePicture u\<rparr>"

text \<open>
  \<^verbatim>\<open>message.populate("sender", ...)\<close>: a read of the sender's document; the stored record is
  not changed.
\<close>

definition populate_sender ::
  "chat_message \<Rightarrow> world \<Rightarrow> (error + delivered_message) \<times> world" where
  "populate_sender m w =
     (let (failed, w1) = db_call w in
      if failed then (Inl DbError, w1)
      else (Inr \<lparr>stored = m,
                 sender_doc = map_option (view_of (sender m)) (users w1 (sender m))\<rparr>, w1))"

section \<open>The connection registry\<close>

text \<open>
  \<^verbatim>\<open>const s = connectedUsers.get(k); if (s) ...\<close>: the handle of \<open>k\<close> when the map has one
  and it is truthy (a socket id is a non-empty string).
\<close>

definition live_socket :: "world \<Rightarrow> string \<Rightarrow> socket_id option" where
  "live_socket w k =
     (case connectedUsers w k of
        None \<Rightarrow> None
      | Some s \<Rightarrow> if s = [] then None else Some s)"

text \<open>The same lookup with a key taken from a payload, which may be \<^verbatim>\<open>undefined\<close>.\<close>

definition live_socket_of :: "world \<Rightarrow> string option \<Rightarrow> socket_id option" where
  "live_socket_of w k = (case k of None \<Rightarrow> None | Some k' \<Rightarrow> live_socket w k')"

section \<open>Fan-out to friends\<close>

datatype notice = Online | Offline | Playing "song_id option"

text \<open>
  The object literal passed to \<^verbatim>\<open>emit\<close> in the three \<^verbatim>\<open>forEach\<close> loops; two of them read
  the clock for every friend they notify.
\<close>

fun notice_payload :: "notice \<Rightarrow> user_id \<Rightarrow> world \<Rightarrow> out_event \<times> world" where
  "notice_payload Online uid w = (FriendOnline uid, w)"
| "notice_payload Offline uid w =
     (let (now, w1) = new_Date w in (FriendOffline uid now, w1))"
| "notice_payload (Playing s) uid w =
     (let (now, w1) = new_Date w in (FriendCurrentlyPlaying uid s now, w1))"

text \<open>
  \<^verbatim>\<open>user.friends.forEach(friendId => { const s = connectedUsers.get(friendId.toString());
  if (s) io.to(s).emit(...) })\<close>
\<close>

fun forEach_friend :: "notice \<Rightarrow> user_id \<Rightarrow> user_id list \<Rightarrow> world \<Rightarrow> effect list \<times> world" where
  "forEach_friend n uid [] w = ([], w)"
| "forEach_friend n uid (f # fs) w =
     (case live_socket w f of
        None \<Rightarrow> forEach_friend n uid fs w
      | Some s \<Rightarrow>
          (let (ev, w1) = notice_payload n uid w;
               (es, w2) = forEach_friend n uid fs w1
           in (Emit s ev # es, w2)))"

text \<open>\<^verbatim>\<open>if (user && user.friends.length > 0) { user.friends.forEach(...) }\<close>\<close>

definition notify_friends ::
  "notice \<Rightarrow> user_id \<Rightarrow> user option \<Rightarrow> world \<Rightarrow> effect list \<times> world" where
  "notify_friends n uid usr w =
     (case usr of
        None \<Rightarrow> ([], w)
      | Some u \<Rightarrow> if friends u \<noteq> [] then forEach_friend n uid (friends u) w else ([], w))"

section \<open>The socket handlers\<close>

text \<open>
  A handler runs from its event to its end without another handler in between. The
  handlers of one connection are closures over the connection's \<open>userId\<close> and socket.
\<close>

text \<open>\<^verbatim>\<open>io.on("connection", async (socket) => ...)\<close>, up to the registration of the listeners.\<close>

definition on_connection ::
  "user_id \<Rightarrow> socket_id \<Rightarrow> world \<Rightarrow> completion \<times> effect list \<times> world" where
  "on_connection userId socketId w0 =
     (let w1 = w0\<lparr>connectedUsers := (connectedUsers w0)(userId \<mapsto> socketId)\<rparr>;
          (now, w2) = new_Date w1;
          (r, w3) = User_findByIdAndUpdate userId (\<lambda>u. u\<lparr>isOnline := True, lastSeen := now\<rparr>) w2
      in case r of
           Inl e \<Rightarrow> (Uncaught e, [], w3)
         | Inr _ \<Rightarrow>
             (let (r2, w4) = User_findById userId w3 in
              case r2 of
                Inl e \<Rightarrow> (Uncaught e, [], w4)
              | Inr usr \<Rightarrow>
                  (let (es, w5) = notify_friends Online userId usr w4
                   in (Normal, es, w5))))"

definition send_failed :: "socket_id \<Rightarrow> effect list" where
  "send_failed socketId =
     [ConsoleError ''Error sending private message:'',
      Emit socketId (MessageError ''Failed to send message'')]"

text \<open>\<^verbatim>\<open>socket.on("privateMessage", async (data) => { try { ... } catch (error) { ... } })\<close>\<close>

definition on_privateMessage ::
  "user_id \<Rightarrow> socket_id \<Rightarrow> payload option \<Rightarrow> world \<Rightarrow> completion \<times> effect list \<times> world" where
  "on_privateMessage userId socketId data w =
     (case data of
        None \<Rightarrow> (Normal, send_failed socketId, w)
      | Some d \<Rightarrow>
          (let (r, w1) = ChatMessage_create userId (receiverId d) (msg_content d) w in
           case r of
             Inl e \<Rightarrow> (Normal, send_failed socketId, w1)
           | Inr m \<Rightarrow>
               (let (r2, w2) = populate_sender m w1 in
                case r2 of
                  Inl e \<Rightarrow> (Normal, send_failed socketId, w2)
                | Inr message \<Rightarrow>
                    (Normal,
                     (case live_socket_of w2 (receiverId d) of
                        None \<Rightarrow> []
                      | Some receiverSocketId \<Rightarrow> [Emit receiverSocketId (NewMessage message)])
                     @ [Emit socketId (MessageSent message)],
                     w2))))"

text \<open>\<^verbatim>\<open>socket.on("typing", (data) => ...)\<close>: no \<^verbatim>\<open>try\<close>; destructuring an absent payload throws.\<close>

definition on_typing :: "user_id \<Rightarrow> payload option \<Rightarrow> world \<Rightarrow> completion \<times> effect list \<times> world" where
  "on_typing userId data w =
     (case data of
        None \<Rightarrow> (Uncaught TypeError, [], w)
      | Some d \<Rightarrow>
          (Normal,
           (case live_socket_of w (receiverId d) of
              None \<Rightarrow> []
            | Some receiverSocketId \<Rightarrow> [Emit receiverSocketId (UserTyping userId)]),
           w))"

definition playing_failed :: "effect list" where
  "playing_failed = [ConsoleError ''Error updating currently playing:'']"

text \<open>\<^verbatim>\<open>socket.on("updateCurrentlyPlaying", async (data) => { try { ... } catch (error) { ... } })\<close>\<close>

definition on_updateCurrentlyPlaying ::
  "user_id \<Rightarrow> payload option \<Rightarrow> world \<Rightarrow> completion \<times> effect list \<times> world" where
  "on_updateCurrentlyPlaying userId data w =
     (case data of
        None \<Rightarrow> (Normal, playing_failed, w)
      | Some d \<Rightarrow>
          (let (now, w1) = new_Date w;
               (r, w2) = User_findByIdAndUpdate userId
                           (\<lambda>u. u\<lparr>currentlyPlaying := Some \<lparr>song = songId d, timestamp = now\<rparr>\<rparr>) w1
           in case r of
                Inl e \<Rightarrow> (Normal, playing_failed, w2)
              | Inr _ \<Rightarrow>
                  (let (r2, w3) = User_findById userId w2 in
                   case r2 of
                     Inl e \<Rightarrow> (Normal, playing_failed, w3)
                   | Inr usr \<Rightarrow>
                       (let (es, w4) = notify_friends (Playing (songId d)) userId usr w3
                        in (Normal, es, w4)))))"

text \<open>\<^verbatim>\<open>socket.on("disconnect", async () => ...)\<close>\<close>

definition on_disconnect :: "user_id \<Rightarrow> world \<Rightarrow> completion \<times> effect list \<times> world" where
  "on_disconnect userId w0 =
     (let w1 = w0\<lparr>connectedUsers := (connectedUsers w0)(userId := None)\<rparr>;
          (now, w2) = new_Date w1;
          (r, w3) = User_findByIdAndUpdate userId (\<lambda>u. u\<lparr>isOnline := False, lastSeen := now\<rparr>) w2
      in case r of
           Inl e \<Rightarrow> (Uncaught e, [], w3)
         | Inr _ \<Rightarrow>
             (let (r2, w4) = User_findById userId w3 in
              case r2 of
                Inl e \<Rightarrow> (Uncaught e, [], w4)
              | Inr usr \<Rightarrow>
                  (let (es, w5) = notify_friends Offline userId usr w4
                   in (Normal, es, w5))))"

section \<open>Accepting a friend request\<close>

definition server_error :: "world \<Rightarrow> response \<times> effect list \<times> world" where
  "server_error w =
     (Status 500 ''Internal server error'', [ConsoleError ''Error accepting friend request:''], w)"

text \<open>
  \<^verbatim>\<open>router.post("/request/:requestId/accept", ...)\<close> for the authenticated user \<open>me\<close>
  (\<^verbatim>\<open>req.user._id\<close>).
\<close>

definition accept_request ::
  "user_id \<Rightarrow> request_id \<Rightarrow> world \<Rightarrow> response \<times> effect list \<times> world" where
  "accept_request me requestId w =
     (let (r, w1) = FriendRequest_findById requestId w in
      case r of
        Inl e \<Rightarrow> server_error w1
      | Inr None \<Rightarrow> (Status 404 ''Request not found'', [], w1)
      | Inr (Some request) \<Rightarrow>
          if req_receiver request \<noteq> me then (Status 403 ''Not authorized'', [], w1)
          else
            (let (r1, w2) = User_updateOne_addToSet_friends (req_sender request) (req_receiver request) w1 in
             case r1 of
               Inl e \<Rightarrow> server_error w2
             | Inr _ \<Rightarrow>
                 (let (r2, w3) = User_updateOne_addToSet_friends (req_receiver request) (req_sender request) w2 in
                  case r2 of
                    Inl e \<Rightarrow> server_error w3
                  | Inr _ \<Rightarrow>
                      (let (r3, w4) = FriendRequest_save requestId (request\<lparr>status := ''accepted''\<rparr>) w3 in
                       case r3 of
                         Inl e \<Rightarrow> server_error w4
                       | Inr _ \<Rightarrow> (Status 200 ''Friend request accepted'', [], w4)))))"

section \<open>Observations\<close>

text \<open>The events delivered to the socket \<open>s\<close>, in order.\<close>

fun delivered_to :: "socket_id \<Rightarrow> effect list \<Rightarrow> out_event list" where
  "delivered_to s [] = []"
| "delivered_to s (Emit s' e # es) = (if s' = s then e # delivered_to s es else delivered_to s es)"
| "delivered_to s (ConsoleError m # es) = delivered_to s es"

text \<open>The sockets that are delivered to, one entry for each delivery.\<close>

fun targets :: "effect list \<Rightarrow> socket_id list" where
  "targets [] = []"
| "targets (Emit s e # es) = s # targets es"
| "targets (ConsoleError m # es) = targets es"

text \<open>\<open>b\<close> is in the friends array of \<open>a\<close>'s document.\<close>

definition friend_of :: "world \<Rightarrow> user_id \<Rightarrow> user_id \<Rightarrow> bool" where
  "friend_of w a b = (case users w a of None \<Rightarrow> False | Some u \<Rightarrow> b \<in> set (friends u))"

fun is_NewMessage :: "out_event \<Rightarrow> bool" where
  "is_NewMessage (NewMessage m) = True"
| "is_NewMessage e = False"

text \<open>
  Among the friends \<open>fs\<close>, no two that have a live connection share a socket: socket
  identifiers are unique to a connection.
\<close>

definition one_socket_each :: "world \<Rightarrow> user_id list \<Rightarrow> bool" where
  "one_socket_each w fs =
     (\<forall>f\<in>set fs. \<forall>g\<in>set fs.
        live_socket w f \<noteq> None \<and> live_socket w f = live_socket w g \<longrightarrow> f = g)"

section \<open>Sequences of events\<close>

text \<open>
  What reaches the process: a new connection, an event on a connection (with the user
  and socket its listeners were created for), or an accept request over HTTP.
\<close>

datatype input =
    Connection user_id socket_id
  | PrivateMessage user_id socket_id "payload option"
  | Typing user_id "payload option"
  | UpdateCurrentlyPlaying user_id "payload option"
  | Disconnect user_id
  | AcceptRequest user_id request_id

fun handle :: "input \<Rightarrow> world \<Rightarrow> effect list \<times> world" where
  "handle (Connection u s) w = snd (on_connection u s w)"
| "handle (PrivateMessage u s d) w = snd (on_privateMessage u s d w)"
| "handle (Typing u d) w = snd (on_typing u d w)"
| "handle (UpdateCurrentlyPlaying u d) w = snd (on_updateCurrentlyPlaying u d w)"
| "handle (Disconnect u) w = snd (on_disconnect u w)"
| "handle (AcceptRequest u r) w = snd (accept_request u r w)"

text \<open>
  The events are handled one after the other, also after a handler that ended with an
  uncaught exception: the process is taken to survive it.
\<close>

fun run :: "input list \<Rightarrow> world \<Rightarrow> effect list \<times> world" where
  "run [] w = ([], w)"
| "run (i # is) w =
     (let (es, w1) = handle i w; (es', w2) = run is w1 in (es @ es', w2))"

text \<open>The events that write the registry entry of \<open>u\<close>: its connections and its disconnects.\<close>

fun registers :: "user_id \<Rightarrow> input \<Rightarrow> bool" where
  "registers u (Connection u' s) = (u' = u)"
| "registers u (Disconnect u') = (u' = u)"
| "registers u i = False"

section \<open>An example world\<close>

text \<open>
  Four users: \<open>a\<close> is a friend of \<open>b\<close> and \<open>c\<close>, \<open>d\<close> has sent \<open>a\<close> a friend request, and
  only \<open>b\<close> is connected. The clock advances by one millisecond at each reading.
\<close>

definition person :: "string \<Rightarrow> user_id list \<Rightarrow> user" where
  "person name fs =
     \<lparr>username = name, firstName = name, lastName = [], profilePicture = [],
      friends = fs, currentlyPlaying = None, isOnline = False, lastSeen = 0\<rparr>"

definition example_world :: world where
  "example_world =
     \<lparr>connectedUsers = [''b'' \<mapsto> ''sock-b''],
      users = [''a'' \<mapsto> person ''alice'' [''b'', ''c''],
               ''b'' \<mapsto> person ''bob'' [''a''],
               ''c'' \<mapsto> person ''carol'' [''a''],
               ''d'' \<mapsto> person ''dave'' []],
      messages = [],
      requests = [''r1'' \<mapsto> \<lparr>req_sender = ''d'', req_receiver = ''a'', status = ''pending''\<rparr>],
      clock = (\<lambda>k. 1000 + int k),
      reads = 0,
      fault = (\<lambda>k. False),
      calls = 0\<rparr>"

text \<open>The same world with a database whose next call is rejected.\<close>

definition failing_world :: world where
  "failing_world = example_world\<lparr>fault := (\<lambda>k. k = 0)\<rparr>"

text \<open>
  A session of \<open>a\<close>: the connection, then a typing signal and a change of track, after
  which \<open>a\<close> disconnects.
\<close>

definition example_between :: "input list" where
  "example_between =
     [Typing ''a'' (Some \<lparr>receiverId = Some ''b'', msg_content = None, songId = None\<rparr>),
      UpdateCurrentlyPlaying ''a'' (Some \<lparr>receiverId = None, msg_content = None, songId = Some ''song-1''\<rparr>)]"

definition connected_world :: world where
  "connected_world = snd (snd (on_connection ''a'' ''sock-a'' example_world))"

definition session_world :: world where
  "session_world = snd (run example_between connected_world)"

text \<open>
  A second connection of \<open>a\<close> on another socket, followed by events that neither connect
  nor disconnect \<open>a\<close>.
\<close>

definition example_after :: "input list" where
  "example_after =
     [Typing ''b'' (Some \<lparr>receiverId = Some ''a'', msg_content = None, songId = None\<rparr>),
      UpdateCurrentlyPlaying ''a'' (Some \<lparr>receiverId = None, msg_content = None, songId = Some ''song-1''\<rparr>),
      Disconnect ''b'']"

definition first_socket_world :: world where
  "first_socket_world = snd (snd (on_connection ''a'' ''sock-1'' example_world))"

definition reconnected_world :: world where
  "reconnected_world = snd (snd (on_connection ''a'' ''sock-2'' first_socket_world))"

text \<open>A payload object without any of the properties.\<close>

definition empty_payload :: payload where
  "empty_payload = \<lparr>receiverId = None, msg_content = None, songId = None\<rparr>"

section \<open>Auxiliary facts\<close>

lemmas db_defs = db_call_def new_Date_def User_findByIdAndUpdate_def User_findById_def
  ChatMessage_create_def populate_sender_def User_updateOne_addToSet_friends_def
  FriendRequest_findById_def FriendRequest_save_def

lemma live_socket_reads [simp]: "live_socket (w\<lparr>reads := k\<rparr>) = live_socket w"
  by (rule ext) (simp add: live_socket_def)

lemma live_socket_calls [simp]: "live_socket (w\<lparr>calls := k\<rparr>) = live_socket w"
  by (rule ext) (simp add: live_socket_def)

lemma live_socket_users [simp]: "live_socket (w\<lparr>users := k\<rparr>) = live_socket w"
  by (rule ext) (simp add: live_socket_def)

lemma live_socket_messages [simp]: "live_socket (w\<lparr>messages := k\<rparr>) = live_socket w"
  by (rule ext) (simp add: live_socket_def)

lemma live_socket_requests [simp]: "live_socket (w\<lparr>requests := k\<rparr>) = live_socket w"
  by (rule ext) (simp add: live_socket_def)

lemma notice_payload_frame:
  "notice_payload n uid w = (ev, w') \<Longrightarrow> w' = w\<lparr>reads := reads w'\<rparr> \<and> reads w \<le> reads w'"
  by (cases n) (auto simp: new_Date_def)

lemma forEach_friend_frame:
  "forEach_friend n uid fs w = (es, w') \<Longrightarrow> w' = w\<lparr>reads := reads w'\<rparr> \<and> reads w \<le> reads w'"
proof (induction fs arbitrary: w es w')
  case Nil
  then show ?case by simp
next
  case (Cons f fs)
  show ?case
  proof (cases "live_socket w f")
    case None
    with Cons show ?thesis by simp
  next
    case (Some s)
    obtain ev w1 where p: "notice_payload n uid w = (ev, w1)" by fastforce
    obtain es1 w2 where r: "forEach_friend n uid fs w1 = (es1, w2)" by fastforce
    from Cons.prems Some p r have w': "w' = w2" by simp
    from notice_payload_frame [OF p] have f1: "w1 = w\<lparr>reads := reads w1\<rparr>" "reads w \<le> reads w1" by simp_all
    from Cons.IH [OF r] have f2: "w2 = w1\<lparr>reads := reads w2\<rparr>" "reads w1 \<le> reads w2" by simp_all
    have "w2 = w\<lparr>reads := reads w2\<rparr>" using f1(1) f2(1)
      by (metis world.update_convs(6) world.surjective)
    with f1 f2 w' show ?thesis by simp
  qed
qed

lemma forEach_friend_live:
  assumes "forEach_friend n uid fs w = (es, w')"
  shows "live_socket w' = live_socket w" and "clock w' = clock w"
proof -
  from forEach_friend_frame [OF assms] have e: "w' = w\<lparr>reads := reads w'\<rparr>" by simp
  show "live_socket w' = live_socket w" by (subst e) simp
  show "clock w' = clock w" by (subst e) simp
qed

lemma forEach_friend_targets:
  "forEach_friend n uid fs w = (es, w') \<Longrightarrow> targets es = List.map_filter (live_socket w) fs"
proof (induction fs arbitrary: w es w')
  case Nil
  then show ?case by (simp add: List.map_filter_simps)
next
  case (Cons f fs)
  show ?case
  proof (cases "live_socket w f")
    case None
    with Cons show ?thesis by (simp add: List.map_filter_simps)
  next
    case (Some s)
    obtain ev w1 where p: "notice_payload n uid w = (ev, w1)" by fastforce
    obtain es1 w2 where r: "forEach_friend n uid fs w1 = (es1, w2)" by fastforce
    from notice_payload_frame [OF p] have "w1 = w\<lparr>reads := reads w1\<rparr>" by simp
    then have l: "live_socket w1 = live_socket w" by (metis live_socket_reads)
    from Cons.prems Some p r have "es = Emit s ev # es1" by simp
    with Cons.IH [OF r] Some l show ?thesis
      by (simp add: List.map_filter_simps)
  qed
qed

lemma forEach_friend_online:
  "forEach_friend Online uid fs w = (es, w') \<Longrightarrow>
     es = map (\<lambda>s. Emit s (FriendOnline uid)) (List.map_filter (live_socket w) fs)"
proof (induction fs arbitrary: es w')
  case Nil
  then show ?case by (simp add: List.map_filter_simps)
next
  case (Cons f fs)
  obtain es1 w2 where r: "forEach_friend Online uid fs w = (es1, w2)" by fastforce
  from Cons.IH [OF r] Cons.prems r show ?case
    by (auto simp: List.map_filter_simps split: option.splits)
qed

lemma forEach_friend_offline_times:
  "forEach_friend Offline uid fs w = (es, w') \<Longrightarrow> e \<in> set es \<Longrightarrow>
     \<exists>s k. e = Emit s (FriendOffline uid (clock w k)) \<and> reads w \<le> k"
proof (induction fs arbitrary: w es w')
  case Nil
  then show ?case by simp
next
  case (Cons f fs)
  show ?case
  proof (cases "live_socket w f")
    case None
    with Cons show ?thesis by simp
  next
    case (Some s)
    let ?w1 = "w\<lparr>reads := Suc (reads w)\<rparr>"
    obtain es1 w2 where r: "forEach_friend Offline uid fs ?w1 = (es1, w2)" by fastforce
    from Cons.prems(1) Some r have es: "es = Emit s (FriendOffline uid (clock w (reads w))) # es1"
      by (simp add: new_Date_def)
    show ?thesis
    proof (cases "e \<in> set es1")
      case True
      from Cons.IH [OF r True] obtain s' k where
        "e = Emit s' (FriendOffline uid (clock ?w1 k))" "reads ?w1 \<le> k" by blast
      then have "e = Emit s' (FriendOffline uid (clock w k)) \<and> reads w \<le> k" by simp
      then show ?thesis by blast
    next
      case False
      with es Cons.prems(2) have "e = Emit s (FriendOffline uid (clock w (reads w)))" by simp
      then show ?thesis by blast
    qed
  qed
qed

lemma length_delivered_to: "length (delivered_to s es) = count_list (targets es) s"
  by (induction s es rule: delivered_to.induct) auto

lemma delivered_to_mem: "e \<in> set (delivered_to s es) \<Longrightarrow> Emit s e \<in> set es"
  by (induction s es rule: delivered_to.induct) (auto split: if_splits)

lemma set_map_filter: "set (List.map_filter g xs) = {y. \<exists>x\<in>set xs. g x = Some y}"
  by (induction xs) (auto simp: List.map_filter_simps split: option.splits)

lemma count_distinct: "distinct xs \<Longrightarrow> x \<in> set xs \<Longrightarrow> count_list xs x = 1"
  by (induction xs) auto

lemma count_live:
  assumes "distinct fs" and "one_socket_each w fs" and "f \<in> set fs" and "live_socket w f = Some s"
  shows "count_list (List.map_filter (live_socket w) fs) s = 1"
proof -
  let ?xs = "filter (\<lambda>x. live_socket w x \<noteq> None) fs"
  have d: "distinct ?xs" using assms(1) by simp
  have inj: "inj_on (the \<circ> live_socket w) (set ?xs)"
    using assms(2) unfolding one_socket_each_def inj_on_def by (auto; metis option.sel)
  have "distinct (map (the \<circ> live_socket w) ?xs)" using d inj by (simp add: distinct_map)
  then have dd: "distinct (List.map_filter (live_socket w) fs)" by (simp add: List.map_filter_def)
  have "s \<in> set (List.map_filter (live_socket w) fs)"
    using assms(3,4) by (auto simp: set_map_filter)
  with dd show ?thesis by (rule_tac count_distinct)
qed

lemma on_connection_fanout:
  assumes "\<not> fault w0 (calls w0)" and "\<not> fault w0 (Suc (calls w0))"
    and "users w0 uid = Some u" and "on_connection uid sid w0 = (c, effs, w)"
  shows "c = Normal \<and>
         (\<exists>wX. forEach_friend Online uid (friends u) wX = (effs, w)
              \<and> connectedUsers wX = (connectedUsers w0)(uid \<mapsto> sid)
              \<and> clock wX = clock w0 \<and> reads wX = Suc (reads w0))"
  using assms
  by (auto simp: on_connection_def notify_friends_def db_defs Let_def split: prod.splits if_splits)

lemma on_disconnect_fanout:
  assumes "\<not> fault w0 (calls w0)" and "\<not> fault w0 (Suc (calls w0))"
    and "users w0 uid = Some u" and "on_disconnect uid w0 = (c, effs, w)"
  shows "c = Normal \<and>
         (\<exists>wX. forEach_friend Offline uid (friends u) wX = (effs, w)
              \<and> connectedUsers wX = (connectedUsers w0)(uid := None)
              \<and> clock wX = clock w0 \<and> reads wX = Suc (reads w0))"
  using assms
  by (auto simp: on_disconnect_def notify_friends_def db_defs Let_def split: prod.splits if_splits)

lemma delivered_to_single:
  assumes "count_list (targets es) s = 1" and "\<And>e. Emit s e \<in> set es \<Longrightarrow> P e"
  shows "\<exists>e. delivered_to s es = [e] \<and> P e"
proof -
  from assms(1) have "length (delivered_to s es) = 1" by (simp add: length_delivered_to)
  then obtain e where e: "delivered_to s es = [e]"
    by (cases "delivered_to s es") auto
  then have "e \<in> set (delivered_to s es)" by simp
  then have "Emit s e \<in> set es" by (rule delivered_to_mem)
  with assms(2) e show ?thesis by blast
qed

lemma notify_friends_frame:
  "notify_friends n uid usr w = (es, w') \<Longrightarrow> clock w' = clock w \<and> reads w \<le> reads w'"
  by (auto simp: notify_friends_def split: option.splits if_splits
           dest: forEach_friend_frame forEach_friend_live(2))

lemma on_connection_clock:
  "on_connection u s w = (c, es, w') \<Longrightarrow> clock w' = clock w \<and> reads w \<le> reads w'"
  by (auto simp: on_connection_def db_defs Let_def split: prod.splits if_splits sum.splits option.splits
           dest!: notify_friends_frame)

lemma on_disconnect_clock:
  "on_disconnect u w = (c, es, w') \<Longrightarrow> clock w' = clock w \<and> reads w \<le> reads w'"
  by (auto simp: on_disconnect_def db_defs Let_def split: prod.splits if_splits sum.splits option.splits
           dest!: notify_friends_frame)

lemma on_updateCurrentlyPlaying_clock:
  "on_updateCurrentlyPlaying u d w = (c, es, w') \<Longrightarrow> clock w' = clock w \<and> reads w \<le> reads w'"
  by (auto simp: on_updateCurrentlyPlaying_def db_defs Let_def split: prod.splits if_splits sum.splits option.splits
           dest!: notify_friends_frame)

lemma on_privateMessage_clock:
  "on_privateMessage u s d w = (c, es, w') \<Longrightarrow> clock w' = clock w \<and> reads w \<le> reads w'"
  by (auto simp: on_privateMessage_def db_defs Let_def split: prod.splits if_splits sum.splits option.splits)

lemma on_typing_clock:
  "on_typing u d w = (c, es, w') \<Longrightarrow> clock w' = clock w \<and> reads w \<le> reads w'"
  by (auto simp: on_typing_def split: option.splits)

lemma FriendRequest_findById_clock:
  "FriendRequest_findById r w = (x, w') \<Longrightarrow> clock w' = clock w \<and> reads w' = reads w"
  by (auto simp: db_defs split: if_splits)

lemma FriendRequest_save_clock:
  "FriendRequest_save r q w = (x, w') \<Longrightarrow> clock w' = clock w \<and> reads w' = reads w"
  by (auto simp: db_defs split: if_splits)

lemma addToSet_friends_clock:
  "User_updateOne_addToSet_friends a b w = (x, w') \<Longrightarrow> clock w' = clock w \<and> reads w' = reads w"
  by (auto simp: db_defs split: if_splits option.splits)

lemma accept_request_clock:
  "accept_request u r w = (c, es, w') \<Longrightarrow> clock w' = clock w \<and> reads w \<le> reads w'"
  unfolding accept_request_def server_error_def Let_def
  by (auto split: prod.splits if_splits sum.splits option.splits
           dest!: FriendRequest_findById_clock FriendRequest_save_clock addToSet_friends_clock)

lemma handle_clock:
  "handle i w = (es, w') \<Longrightarrow> clock w' = clock w \<and> reads w \<le> reads w'"
proof (cases i)
  case (Connection u s)
  then show "handle i w = (es, w') \<Longrightarrow> ?thesis"
    using on_connection_clock [of u s w _ es w'] by (cases "on_connection u s w") simp
next
  case (PrivateMessage u s d)
  then show "handle i w = (es, w') \<Longrightarrow> ?thesis"
    using on_privateMessage_clock [of u s d w _ es w'] by (cases "on_privateMessage u s d w") simp
next
  case (Typing u d)
  then show "handle i w = (es, w') \<Longrightarrow> ?thesis"
    using on_typing_clock [of u d w _ es w'] by (cases "on_typing u d w") simp
next
  case (UpdateCurrentlyPlaying u d)
  then show "handle i w = (es, w') \<Longrightarrow> ?thesis"
    using on_updateCurrentlyPlaying_clock [of u d w _ es w']
    by (cases "on_updateCurrentlyPlaying u d w") simp
next
  case (Disconnect u)
  then show "handle i w = (es, w') \<Longrightarrow> ?thesis"
    using on_disconnect_clock [of u w _ es w'] by (cases "on_disconnect u w") simp
next
  case (AcceptRequest u r)
  then show "handle i w = (es, w') \<Longrightarrow> ?thesis"
    using accept_request_clock [of u r w _ es w'] by (cases "accept_request u r w") simp
qed

lemma run_clock:
  "run is w = (es, w') \<Longrightarrow> clock w' = clock w \<and> reads w \<le> reads w'"
proof (induction "is" arbitrary: w es w')
  case Nil
  then show ?case by simp
next
  case (Cons i "is")
  obtain e1 w1 where h: "handle i w = (e1, w1)" by fastforce
  obtain e2 w2 where r: "run is w1 = (e2, w2)" by fastforce
  from Cons.prems h r have "w' = w2" by simp
  with handle_clock [OF h] Cons.IH [OF r] show ?case by simp
qed

lemma example_connection_registry: "connectedUsers (snd (snd (on_connection ''a'' ''sock-a'' example_world))) = [''b'' \<mapsto> ''sock-b'', ''a'' \<mapsto> ''sock-a'']"
  by (simp add: on_connection_def notify_friends_def db_defs example_world_def person_def live_socket_def Let_def)

lemma notify_friends_registry:
  "notify_friends n uid usr w = (es, w') \<Longrightarrow> connectedUsers w' = connectedUsers w"
proof -
  assume a: "notify_friends n uid usr w = (es, w')"
  show ?thesis
  proof (cases "\<exists>u. usr = Some u \<and> friends u \<noteq> []")
    case True
    then obtain u where "usr = Some u" "friends u \<noteq> []" by blast
    with a have "forEach_friend n uid (friends u) w = (es, w')" by (simp add: notify_friends_def)
    from forEach_friend_frame [OF this] have "w' = w\<lparr>reads := reads w'\<rparr>" by simp
    then show ?thesis by (metis world.select_convs(1) world.surjective world.update_convs(6))
  next
    case False
    with a show ?thesis by (auto simp: notify_friends_def split: option.splits if_splits)
  qed
qed

lemma on_connection_registry:
  "on_connection u s w = (c, es, w') \<Longrightarrow> connectedUsers w' = (connectedUsers w)(u \<mapsto> s)"
  by (auto simp: on_connection_def db_defs Let_def split: prod.splits if_splits sum.splits option.splits
           dest!: notify_friends_registry)

lemma on_connection_normal:
  "\<not> fault w (calls w) \<Longrightarrow> \<not> fault w (Suc (calls w)) \<Longrightarrow> on_connection u s w = (c, es, w')
     \<Longrightarrow> c = Normal"
  by (auto simp: on_connection_def db_defs Let_def split: prod.splits if_splits sum.splits option.splits)

lemmas example_defs = on_connection_def on_disconnect_def on_typing_def on_updateCurrentlyPlaying_def
  notify_friends_def db_defs example_world_def person_def live_socket_def live_socket_of_def Let_def
  example_between_def

lemma example_session:
  "snd (run example_between (snd (snd (on_connection ''a'' ''sock-a'' example_world))))
   = example_world
       \<lparr>connectedUsers := [''b'' \<mapsto> ''sock-b'', ''a'' \<mapsto> ''sock-a''],
        users := [''a'' \<mapsto> (person ''alice'' [''b'', ''c''])
                     \<lparr>isOnline := True, lastSeen := 1000,
                      currentlyPlaying := Some \<lparr>song = Some ''song-1'', timestamp = 1001\<rparr>\<rparr>,
                  ''b'' \<mapsto> person ''bob'' [''a''],
                  ''c'' \<mapsto> person ''carol'' [''a''],
                  ''d'' \<mapsto> person ''dave'' []],
        reads := 3, calls := 4\<rparr>"
  by (simp add: example_defs fun_upd_twist)

lemma session_world_eq:
  "session_world = example_world
       \<lparr>connectedUsers := [''b'' \<mapsto> ''sock-b'', ''a'' \<mapsto> ''sock-a''],
        users := [''a'' \<mapsto> (person ''alice'' [''b'', ''c''])
                     \<lparr>isOnline := True, lastSeen := 1000,
                      currentlyPlaying := Some \<lparr>song = Some ''song-1'', timestamp = 1001\<rparr>\<rparr>,
                  ''b'' \<mapsto> person ''bob'' [''a''],
                  ''c'' \<mapsto> person ''carol'' [''a''],
                  ''d'' \<mapsto> person ''dave'' []],
        reads := 3, calls := 4\<rparr>"
  unfolding session_world_def connected_world_def by (rule example_session)

lemma session_disconnect:
  "on_disconnect ''a'' session_world =
     (Normal, [Emit ''sock-b'' (FriendOffline ''a'' 1004)],
      session_world
        \<lparr>connectedUsers := [''b'' \<mapsto> ''sock-b''],
         users := [''a'' \<mapsto> (person ''alice'' [''b'', ''c''])
                     \<lparr>isOnline := False, lastSeen := 1003,
                      currentlyPlaying := Some \<lparr>song = Some ''song-1'', timestamp = 1001\<rparr>\<rparr>,
                  ''b'' \<mapsto> person ''bob'' [''a''],
                  ''c'' \<mapsto> person ''carol'' [''a''],
                  ''d'' \<mapsto> person ''dave'' []],
         reads := 5, calls := 6\<rparr>)"
  unfolding session_world_eq
  by (simp add: example_defs fun_upd_twist)

lemma forEach_friend_playing_events:
  "forEach_friend (Playing sg) uid fs w = (es, w') \<Longrightarrow> e \<in> set es \<Longrightarrow>
     \<exists>s t. e = Emit s (FriendCurrentlyPlaying uid sg t)"
proof (induction fs arbitrary: w es w')
  case Nil
  then show ?case by simp
next
  case (Cons f fs)
  show ?case
  proof (cases "live_socket w f")
    case None
    with Cons show ?thesis by simp
  next
    case (Some s)
    let ?w1 = "w\<lparr>reads := Suc (reads w)\<rparr>"
    obtain es1 w2 where r: "forEach_friend (Playing sg) uid fs ?w1 = (es1, w2)" by fastforce
    from Cons.prems(1) Some r
    have es: "es = Emit s (FriendCurrentlyPlaying uid sg (clock w (reads w))) # es1"
      by (simp add: new_Date_def)
    with Cons.prems(2) Cons.IH [OF r] show ?thesis by auto
  qed
qed

lemma notify_friends_playing_events:
  "notify_friends (Playing sg) uid usr w = (es, w') \<Longrightarrow> e \<in> set es \<Longrightarrow>
     \<exists>s t. e = Emit s (FriendCurrentlyPlaying uid sg t)"
  by (auto simp: notify_friends_def split: option.splits if_splits
           dest: forEach_friend_playing_events)

lemma notify_friends_playing_shape:
  assumes "notify_friends (Playing sg) uid usr wX = (effs, w')"
  shows "connectedUsers w' = connectedUsers wX
       \<and> (\<forall>e\<in>set effs. e = ConsoleError ''Error updating currently playing:''
             \<or> (\<exists>s t. e = Emit s (FriendCurrentlyPlaying uid sg t)))"
  using notify_friends_registry [OF assms] notify_friends_playing_events [OF assms] by blast

lemma on_updateCurrentlyPlaying_shape:
  assumes "on_updateCurrentlyPlaying userId (Some d) w = (c, effs, w')"
  shows "c = Normal \<and> connectedUsers w' = connectedUsers w
       \<and> (\<forall>e\<in>set effs. e = ConsoleError ''Error updating currently playing:''
             \<or> (\<exists>s t. e = Emit s (FriendCurrentlyPlaying userId (songId d) t)))"
proof (cases "fault w (calls w) \<or> fault w (Suc (calls w))")
  case True
  with assms show ?thesis
    by (auto simp: on_updateCurrentlyPlaying_def playing_failed_def db_defs Let_def
             split: if_splits option.splits)
next
  case False
  let ?wX = "(case users w userId of
                None \<Rightarrow> w\<lparr>reads := Suc (reads w), calls := Suc (calls w)\<rparr>
              | Some u \<Rightarrow> w\<lparr>reads := Suc (reads w), calls := Suc (calls w),
                   users := (users w)(userId \<mapsto> u\<lparr>currentlyPlaying :=
                      Some \<lparr>song = songId d, timestamp = clock w (reads w)\<rparr>\<rparr>)\<rparr>)
             \<lparr>calls := Suc (Suc (calls w))\<rparr>"
  from False assms have c: "c = Normal"
    and n: "notify_friends (Playing (songId d)) userId (users ?wX userId) ?wX = (effs, w')"
    by (auto simp: on_updateCurrentlyPlaying_def db_defs Let_def split: prod.splits option.splits)
  have "connectedUsers ?wX = connectedUsers w" by (simp split: option.splits)
  with notify_friends_playing_shape [OF n] c show ?thesis by simp
qed

lemma accept_request_users:
  assumes "accept_request me requestId w = (Status 200 ''Friend request accepted'', effs, w')"
    and "requests w requestId = Some rq"
    and "users w (req_sender rq) = Some ua" and "users w (req_receiver rq) = Some ub"
  shows "req_receiver rq = me"
    and "requests w' requestId = Some (rq\<lparr>status := ''accepted''\<rparr>)"
    and "users w' =
           (let us1 = (users w)(req_sender rq \<mapsto> ua\<lparr>friends := addToSet (req_receiver rq) (friends ua)\<rparr>);
                ub1 = the (us1 (req_receiver rq))
            in us1(req_receiver rq \<mapsto> ub1\<lparr>friends := addToSet (req_sender rq) (friends ub1)\<rparr>))"
  using assms
  by (auto simp: accept_request_def server_error_def db_defs Let_def
           split: if_splits option.splits)

lemma accept_request_friend_of:
  assumes "accept_request me requestId w = (Status 200 ''Friend request accepted'', effs, w')"
    and "requests w requestId = Some rq"
    and "users w (req_sender rq) = Some ua" and "users w (req_receiver rq) = Some ub"
  shows "friend_of w' x y \<longleftrightarrow>
           friend_of w x y \<or> (x = req_sender rq \<and> y = req_receiver rq)
                           \<or> (x = req_receiver rq \<and> y = req_sender rq)"
  using assms(3,4) unfolding friend_of_def accept_request_users(3) [OF assms]
  by (auto simp: Let_def addToSet_def split: option.splits if_splits)

lemma example_accept:
  "accept_request ''a'' ''r1'' example_world =
     (Status 200 ''Friend request accepted'', [],
      example_world
        \<lparr>users := [''a'' \<mapsto> person ''alice'' [''b'', ''c'', ''d''],
                   ''b'' \<mapsto> person ''bob'' [''a''],
                   ''c'' \<mapsto> person ''carol'' [''a''],
                   ''d'' \<mapsto> person ''dave'' [''a'']],
         requests := [''r1'' \<mapsto> \<lparr>req_sender = ''d'', req_receiver = ''a'', status = ''accepted''\<rparr>],
         calls := 4\<rparr>)"
  by (simp add: accept_request_def db_defs example_world_def person_def addToSet_def Let_def
        fun_upd_twist)

lemma on_disconnect_registry:
  "on_disconnect u w = (c, es, w') \<Longrightarrow> connectedUsers w' = (connectedUsers w)(u := None)"
  by (auto simp: on_disconnect_def db_defs Let_def split: prod.splits if_splits sum.splits option.splits
           dest!: notify_friends_registry)

lemma on_privateMessage_registry:
  "on_privateMessage u s d w = (c, es, w') \<Longrightarrow> connectedUsers w' = connectedUsers w"
  by (auto simp: on_privateMessage_def db_defs Let_def split: prod.splits if_splits sum.splits option.splits)

lemma on_typing_registry:
  "on_typing u d w = (c, es, w') \<Longrightarrow> connectedUsers w' = connectedUsers w"
  by (auto simp: on_typing_def split: option.splits)

lemma on_updateCurrentlyPlaying_registry:
  "on_updateCurrentlyPlaying u d w = (c, es, w') \<Longrightarrow> connectedUsers w' = connectedUsers w"
proof (cases d)
  case None
  then show "on_updateCurrentlyPlaying u d w = (c, es, w') \<Longrightarrow> ?thesis"
    by (simp add: on_updateCurrentlyPlaying_def)
next
  case (Some p)
  then show "on_updateCurrentlyPlaying u d w = (c, es, w') \<Longrightarrow> ?thesis"
    using on_updateCurrentlyPlaying_shape [of u p w c es w'] by simp
qed

lemma FriendRequest_findById_registry:
  "FriendRequest_findById r w = (x, w') \<Longrightarrow> connectedUsers w' = connectedUsers w"
  by (auto simp: db_defs split: if_splits)

lemma FriendRequest_save_registry:
  "FriendRequest_save r q w = (x, w') \<Longrightarrow> connectedUsers w' = connectedUsers w"
  by (auto simp: db_defs split: if_splits)

lemma addToSet_friends_registry:
  "User_updateOne_addToSet_friends a b w = (x, w') \<Longrightarrow> connectedUsers w' = connectedUsers w"
  by (auto simp: db_defs split: if_splits option.splits)

lemma accept_request_registry:
  "accept_request u r w = (c, es, w') \<Longrightarrow> connectedUsers w' = connectedUsers w"
  unfolding accept_request_def server_error_def Let_def
  by (auto split: prod.splits if_splits sum.splits option.splits
           dest!: FriendRequest_findById_registry FriendRequest_save_registry addToSet_friends_registry)

lemma handle_registry:
  assumes "handle i w = (es, w')"
  shows "connectedUsers w' u =
           (case i of
              Connection u' s \<Rightarrow> if u' = u then Some s else connectedUsers w u
            | Disconnect u' \<Rightarrow> if u' = u then None else connectedUsers w u
            | _ \<Rightarrow> connectedUsers w u)"
proof (cases i)
  case (Connection u' s)
  with assms on_connection_registry [of u' s w _ es w'] show ?thesis
    by (cases "on_connection u' s w") simp
next
  case (PrivateMessage u' s d)
  with assms on_privateMessage_registry [of u' s d w _ es w'] show ?thesis
    by (cases "on_privateMessage u' s d w") simp
next
  case (Typing u' d)
  with assms on_typing_registry [of u' d w _ es w'] show ?thesis
    by (cases "on_typing u' d w") simp
next
  case (UpdateCurrentlyPlaying u' d)
  with assms on_updateCurrentlyPlaying_registry [of u' d w _ es w'] show ?thesis
    by (cases "on_updateCurrentlyPlaying u' d w") simp
next
  case (Disconnect u')
  with assms on_disconnect_registry [of u' w _ es w'] show ?thesis
    by (cases "on_disconnect u' w") simp
next
  case (AcceptRequest u' r)
  with assms accept_request_registry [of u' r w _ es w'] show ?thesis
    by (cases "accept_request u' r w") simp
qed

lemma run_registry_quiet:
  "run is w = (es, w') \<Longrightarrow> list_all (\<lambda>i. \<not> registers u i) is \<Longrightarrow>
     connectedUsers w' u = connectedUsers w u"
proof (induction "is" arbitrary: w es w')
  case Nil
  then show ?case by simp
next
  case (Cons i "is")
  obtain e1 w1 where h: "handle i w = (e1, w1)" by fastforce
  obtain e2 w2 where r: "run is w1 = (e2, w2)" by fastforce
  from Cons.prems(1) h r have w': "w' = w2" by simp
  from Cons.prems(2) have q: "\<not> registers u i" and qs: "list_all (\<lambda>i. \<not> registers u i) is"
    by simp_all
  from handle_registry [OF h, of u] q have "connectedUsers w1 u = connectedUsers w u"
    by (cases i) auto
  with Cons.IH [OF r qs] w' show ?case by simp
qed

lemma run_registry_origin:
  "run is w = (es, w') \<Longrightarrow>
     connectedUsers w' u = None \<or> connectedUsers w' u = connectedUsers w u
     \<or> (\<exists>s. Connection u s \<in> set is \<and> connectedUsers w' u = Some s)"
proof (induction "is" arbitrary: w es w')
  case Nil
  then show ?case by simp
next
  case (Cons i "is")
  obtain e1 w1 where h: "handle i w = (e1, w1)" by fastforce
  obtain e2 w2 where r: "run is w1 = (e2, w2)" by fastforce
  from Cons.prems(1) h r have w': "w' = w2" by simp
  from handle_registry [OF h, of u]
  have step: "connectedUsers w1 u = None \<or> connectedUsers w1 u = connectedUsers w u
              \<or> (\<exists>s. i = Connection u s \<and> connectedUsers w1 u = Some s)"
    by (cases i) (auto split: if_splits)
  from Cons.IH [OF r] w'
  have rest: "connectedUsers w' u = None \<or> connectedUsers w' u = connectedUsers w1 u
              \<or> (\<exists>s. Connection u s \<in> set is \<and> connectedUsers w' u = Some s)"
    by simp
  from step rest show ?case by auto
qed

lemma live_socket_registry:
  "connectedUsers w k = Some s \<Longrightarrow> s \<noteq> [] \<Longrightarrow> live_socket w k = Some s"
  by (simp add: live_socket_def)

lemma live_socket_SomeD: "live_socket w k = Some s \<Longrightarrow> connectedUsers w k = Some s"
  by (auto simp: live_socket_def split: option.splits if_splits)

section \<open>Direct messages\<close>

text \<open>
  C1: when the message record is persisted and enriched (the two database calls of the
  handler succeed) and the recipient \<open>b\<close> has a live connection \<open>rs\<close>, the handler
  returns normally and emits exactly two events: \<open>newMessage\<close> to the recipient's
  socket and then \<open>messageSent\<close> to the sender's socket, both carrying the same
  enriched record \<open>m\<close>, so content, sender and timestamp agree. The recipient's socket
  sees exactly one \<open>newMessage\<close> and the sender's socket sees the acknowledgment.
\<close>

theorem privateMessage_delivered:
  assumes "\<not> fault w (calls w)" and "\<not> fault w (Suc (calls w))"
    and "receiverId d = Some b" and "live_socket w b = Some rs"
    and "m = \<lparr>stored = \<lparr>sender = a, receiver = Some b, content = msg_content d,
                         createdAt = clock w (reads w)\<rparr>,
              sender_doc = map_option (view_of a) (users w a)\<rparr>"
    and "on_privateMessage a sa (Some d) w = (c, effs, w')"
  shows "c = Normal \<and> effs = [Emit rs (NewMessage m), Emit sa (MessageSent m)]
         \<and> filter is_NewMessage (delivered_to rs effs) = [NewMessage m]
         \<and> MessageSent m \<in> set (delivered_to sa effs)"
  using assms
  by (auto simp add: on_privateMessage_def db_defs live_socket_of_def Let_def)

theorem privateMessage_delivered_witness:
  "\<not> fault example_world (calls example_world)
   \<and> \<not> fault example_world (Suc (calls example_world))
   \<and> live_socket example_world ''b'' = Some ''sock-b''
   \<and> fst (snd (on_privateMessage ''a'' ''sock-a''
                 (Some \<lparr>receiverId = Some ''b'', msg_content = Some ''hi'', songId = None\<rparr>)
                 example_world))
       = [Emit ''sock-b'' (NewMessage
            \<lparr>stored = \<lparr>sender = ''a'', receiver = Some ''b'', content = Some ''hi'', createdAt = 1000\<rparr>,
             sender_doc = Some \<lparr>view_id = ''a'', view_username = ''alice'', view_firstName = ''alice'',
                                view_lastName = [], view_profilePicture = []\<rparr>\<rparr>),
          Emit ''sock-a'' (MessageSent
            \<lparr>stored = \<lparr>sender = ''a'', receiver = Some ''b'', content = Some ''hi'', createdAt = 1000\<rparr>,
             sender_doc = Some \<lparr>view_id = ''a'', view_username = ''alice'', view_firstName = ''alice'',
                                view_lastName = [], view_profilePicture = []\<rparr>\<rparr>)]"
proof -
  let ?d = "\<lparr>receiverId = Some ''b'', msg_content = Some ''hi'', songId = None\<rparr>"
  let ?r = "on_privateMessage ''a'' ''sock-a'' (Some ?d) example_world"
  have h1: "\<not> fault example_world (calls example_world)"
    and h2: "\<not> fault example_world (Suc (calls example_world))"
    and h4: "live_socket example_world ''b'' = Some ''sock-b''"
    by (simp_all add: example_world_def live_socket_def)
  have h3: "receiverId ?d = Some ''b''" by simp
  have h6: "?r = (fst ?r, fst (snd ?r), snd (snd ?r))" by simp
  from privateMessage_delivered [OF h1 h2 h3 h4 refl h6]
  have "fst (snd ?r) =
          [Emit ''sock-b'' (NewMessage
             \<lparr>stored = \<lparr>sender = ''a'', receiver = Some ''b'', content = msg_content ?d,
                         createdAt = clock example_world (reads example_world)\<rparr>,
              sender_doc = map_option (view_of ''a'') (users example_world ''a'')\<rparr>),
           Emit ''sock-a'' (MessageSent
             \<lparr>stored = \<lparr>sender = ''a'', receiver = Some ''b'', content = msg_content ?d,
                         createdAt = clock example_world (reads example_world)\<rparr>,
              sender_doc = map_option (view_of ''a'') (users example_world ''a'')\<rparr>)]"
    by blast
  then have "fst (snd ?r) =
       [Emit ''sock-b'' (NewMessage
            \<lparr>stored = \<lparr>sender = ''a'', receiver = Some ''b'', content = Some ''hi'', createdAt = 1000\<rparr>,
             sender_doc = Some \<lparr>view_id = ''a'', view_username = ''alice'', view_firstName = ''alice'',
                                view_lastName = [], view_profilePicture = []\<rparr>\<rparr>),
          Emit ''sock-a'' (MessageSent
            \<lparr>stored = \<lparr>sender = ''a'', receiver = Some ''b'', content = Some ''hi'', createdAt = 1000\<rparr>,
             sender_doc = Some \<lparr>view_id = ''a'', view_username = ''alice'', view_firstName = ''alice'',
                                view_lastName = [], view_profilePicture = []\<rparr>\<rparr>)]"
    by (simp add: example_world_def view_of_def person_def)
  with h1 h2 h4 show ?thesis by blast
qed

text \<open>
  C3: when persisting the message record fails (the handler's first database call is
  rejected), the handler logs the error and emits a single event, \<open>messageError\<close>, on
  the sender's own socket: no \<open>newMessage\<close>, no \<open>messageSent\<close>, and no message is stored.
\<close>

theorem privateMessage_persist_failure:
  assumes "fault w (calls w)"
    and "on_privateMessage userId socketId (Some d) w = (c, effs, w')"
  shows "c = Normal
       \<and> effs = [ConsoleError ''Error sending private message:'',
                 Emit socketId (MessageError ''Failed to send message'')]
       \<and> delivered_to socketId effs = [MessageError ''Failed to send message'']
       \<and> targets effs = [socketId]
       \<and> messages w' = messages w"
  using assms by (auto simp add: on_privateMessage_def send_failed_def db_defs)

theorem privateMessage_persist_failure_witness:
  "fault failing_world (calls failing_world)
   \<and> fst (snd (on_privateMessage ''a'' ''sock-a''
                 (Some \<lparr>receiverId = Some ''b'', msg_content = Some ''hi'', songId = None\<rparr>)
                 failing_world))
       = [ConsoleError ''Error sending private message:'',
          Emit ''sock-a'' (MessageError ''Failed to send message'')]
   \<and> messages (snd (snd (on_privateMessage ''a'' ''sock-a''
                 (Some \<lparr>receiverId = Some ''b'', msg_content = Some ''hi'', songId = None\<rparr>)
                 failing_world))) = []"
proof -
  let ?d = "\<lparr>receiverId = Some ''b'', msg_content = Some ''hi'', songId = None\<rparr>"
  let ?r = "on_privateMessage ''a'' ''sock-a'' (Some ?d) failing_world"
  have h1: "fault failing_world (calls failing_world)"
    by (simp add: failing_world_def example_world_def)
  have h2: "?r = (fst ?r, fst (snd ?r), snd (snd ?r))" by simp
  have m: "messages failing_world = []" by (simp add: failing_world_def example_world_def)
  from privateMessage_persist_failure [OF h1 h2] h1 m show ?thesis by simp
qed

text \<open>
  C6: when the message record is persisted and enriched and the recipient \<open>b\<close> has no
  live connection, the handler returns normally and its only event is \<open>messageSent\<close>
  on the sender's socket: nothing is delivered for the recipient, and the record is
  appended to the stored messages.
\<close>

theorem privateMessage_recipient_offline:
  assumes "\<not> fault w (calls w)" and "\<not> fault w (Suc (calls w))"
    and "receiverId d = Some b" and "live_socket w b = None"
    and "m = \<lparr>stored = \<lparr>sender = a, receiver = Some b, content = msg_content d,
                         createdAt = clock w (reads w)\<rparr>,
              sender_doc = map_option (view_of a) (users w a)\<rparr>"
    and "on_privateMessage a sa (Some d) w = (c, effs, w')"
  shows "c = Normal \<and> effs = [Emit sa (MessageSent m)] \<and> targets effs = [sa]
         \<and> messages w' = messages w @ [stored m]"
  using assms
  by (auto simp add: on_privateMessage_def db_defs live_socket_of_def Let_def)

theorem privateMessage_recipient_offline_witness:
  "\<not> fault example_world (calls example_world)
   \<and> \<not> fault example_world (Suc (calls example_world))
   \<and> live_socket example_world ''c'' = None
   \<and> fst (snd (on_privateMessage ''a'' ''sock-a''
                 (Some \<lparr>receiverId = Some ''c'', msg_content = Some ''hi'', songId = None\<rparr>)
                 example_world))
       = [Emit ''sock-a'' (MessageSent
            \<lparr>stored = \<lparr>sender = ''a'', receiver = Some ''c'', content = Some ''hi'', createdAt = 1000\<rparr>,
             sender_doc = Some \<lparr>view_id = ''a'', view_username = ''alice'', view_firstName = ''alice'',
                                view_lastName = [], view_profilePicture = []\<rparr>\<rparr>)]
   \<and> messages (snd (snd (on_privateMessage ''a'' ''sock-a''
                 (Some \<lparr>receiverId = Some ''c'', msg_content = Some ''hi'', songId = None\<rparr>)
                 example_world)))
       = [\<lparr>sender = ''a'', receiver = Some ''c'', content = Some ''hi'', createdAt = 1000\<rparr>]"
proof -
  let ?d = "\<lparr>receiverId = Some ''c'', msg_content = Some ''hi'', songId = None\<rparr>"
  let ?r = "on_privateMessage ''a'' ''sock-a'' (Some ?d) example_world"
  let ?m = "\<lparr>stored = \<lparr>sender = ''a'', receiver = Some ''c'', content = msg_content ?d,
                         createdAt = clock example_world (reads example_world)\<rparr>,
              sender_doc = map_option (view_of ''a'') (users example_world ''a'')\<rparr>"
  have h1: "\<not> fault example_world (calls example_world)"
    and h2: "\<not> fault example_world (Suc (calls example_world))"
    and h4: "live_socket example_world ''c'' = None"
    by (simp_all add: example_world_def live_socket_def)
  have h3: "receiverId ?d = Some ''c''" by simp
  have h6: "?r = (fst ?r, fst (snd ?r), snd (snd ?r))" by simp
  from privateMessage_recipient_offline [OF h1 h2 h3 h4 refl h6]
  have "fst (snd ?r) = [Emit ''sock-a'' (MessageSent ?m)]
        \<and> messages (snd (snd ?r)) = messages example_world @ [stored ?m]"
    by blast
  then have "fst (snd ?r) = [Emit ''sock-a'' (MessageSent
            \<lparr>stored = \<lparr>sender = ''a'', receiver = Some ''c'', content = Some ''hi'', createdAt = 1000\<rparr>,
             sender_doc = Some \<lparr>view_id = ''a'', view_username = ''alice'', view_firstName = ''alice'',
                                view_lastName = [], view_profilePicture = []\<rparr>\<rparr>)]
     \<and> messages (snd (snd ?r))
       = [\<lparr>sender = ''a'', receiver = Some ''c'', content = Some ''hi'', createdAt = 1000\<rparr>]"
    by (simp add: example_world_def view_of_def person_def)
  with h1 h2 h4 show ?thesis by blast
qed

section \<open>Presence\<close>

text \<open>
  C4: when the connection handler's write and read succeed and the user's document
  lists the friends \<open>friends u\<close> (without repetition, and with sockets that are
  unique to a connection), the handler returns normally, every friend with a live
  connection in the registry gets exactly one event on its socket, \<open>friendOnline\<close>
  carrying \<open>userId\<close>, and every delivery goes to the socket of a friend with a live
  connection, so a friend without one gets nothing.
\<close>

theorem connection_notifies_connected_friends:
  assumes ok: "\<not> fault w0 (calls w0)" "\<not> fault w0 (Suc (calls w0))"
    and usr: "users w0 userId = Some u"
    and dist: "distinct (friends u)"
    and run: "on_connection userId socketId w0 = (c, effs, w)"
    and socks: "one_socket_each w (friends u)"
  shows "c = Normal
       \<and> (\<forall>f\<in>set (friends u). \<forall>s. live_socket w f = Some s \<longrightarrow>
             delivered_to s effs = [FriendOnline userId])
       \<and> (\<forall>s\<in>set (targets effs). \<exists>f\<in>set (friends u). live_socket w f = Some s)"
proof -
  from on_connection_fanout [OF ok usr run] obtain wX where
    c: "c = Normal" and fan: "forEach_friend Online userId (friends u) wX = (effs, w)"
    by blast
  have live: "live_socket wX = live_socket w" using forEach_friend_live(1) [OF fan] by simp
  have tg: "targets effs = List.map_filter (live_socket w) (friends u)"
    using forEach_friend_targets [OF fan] live by simp
  have ev: "effs = map (\<lambda>s. Emit s (FriendOnline userId)) (List.map_filter (live_socket w) (friends u))"
    using forEach_friend_online [OF fan] live by simp
  have one: "delivered_to s effs = [FriendOnline userId]"
    if f: "f \<in> set (friends u)" and s: "live_socket w f = Some s" for f s
  proof -
    have "count_list (targets effs) s = 1"
      using count_live [OF dist socks f s] tg by simp
    moreover have "e = FriendOnline userId" if "Emit s e \<in> set effs" for e
      using that ev by auto
    ultimately have "\<exists>e. delivered_to s effs = [e] \<and> e = FriendOnline userId"
      by (rule delivered_to_single)
    then show ?thesis by simp
  qed
  have none: "\<exists>f\<in>set (friends u). live_socket w f = Some s" if "s \<in> set (targets effs)" for s
    using that tg by (auto simp: set_map_filter)
  from c one none show ?thesis by blast
qed

theorem connection_notifies_connected_friends_witness:
  "\<not> fault example_world (calls example_world)
   \<and> \<not> fault example_world (Suc (calls example_world))
   \<and> users example_world ''a'' = Some (person ''alice'' [''b'', ''c''])
   \<and> distinct [''b'', ''c'']
   \<and> one_socket_each (snd (snd (on_connection ''a'' ''sock-a'' example_world))) [''b'', ''c'']
   \<and> fst (on_connection ''a'' ''sock-a'' example_world) = Normal
   \<and> delivered_to ''sock-b'' (fst (snd (on_connection ''a'' ''sock-a'' example_world))) = [FriendOnline ''a'']"
proof -
  let ?r = "on_connection ''a'' ''sock-a'' example_world"
  have h1: "\<not> fault example_world (calls example_world)"
    and h2: "\<not> fault example_world (Suc (calls example_world))"
    and h3: "users example_world ''a'' = Some (person ''alice'' [''b'', ''c''])"
    by (simp_all add: example_world_def)
  have h4: "distinct (friends (person ''alice'' [''b'', ''c'']))" by (simp add: person_def)
  have h5: "?r = (fst ?r, fst (snd ?r), snd (snd ?r))" by simp
  have lb: "live_socket (snd (snd ?r)) ''b'' = Some ''sock-b''"
    and lc: "live_socket (snd (snd ?r)) ''c'' = None"
    by (simp_all add: live_socket_def example_connection_registry)
  have h6: "one_socket_each (snd (snd ?r)) (friends (person ''alice'' [''b'', ''c'']))"
    by (simp add: one_socket_each_def person_def lb lc)
  from connection_notifies_connected_friends [OF h1 h2 h3 h4 h5 h6] lb
  have "fst ?r = Normal \<and> delivered_to ''sock-b'' (fst (snd ?r)) = [FriendOnline ''a'']"
    by (simp add: person_def)
  with h1 h2 h3 h4 h6 show ?thesis by (simp add: person_def)
qed

text \<open>
  C5: let \<open>userId\<close> connect at a world \<open>w0\<close> whose clock never goes back, let any
  sequence of events follow, and let \<open>userId\<close> then disconnect with the handler's write
  and read succeeding. With a friends array without repetition and sockets unique to
  a connection, the handler returns normally, every friend with a live connection gets
  exactly one event on its socket, \<open>friendOffline\<close> carrying \<open>userId\<close> and a
  \<open>lastSeen\<close> that is not before the time read when the connection was established,
  and every delivery goes to the socket of a friend with a live connection.
\<close>

theorem disconnect_notifies_connected_friends:
  assumes mono: "mono (clock w0)"
    and conn: "on_connection userId socketId w0 = (c1, e1, w1)"
    and later: "run evs w1 = (e2, w2)"
    and ok: "\<not> fault w2 (calls w2)" "\<not> fault w2 (Suc (calls w2))"
    and usr: "users w2 userId = Some u"
    and dist: "distinct (friends u)"
    and disc: "on_disconnect userId w2 = (c, effs, w)"
    and socks: "one_socket_each w (friends u)"
  shows "c = Normal
       \<and> (\<forall>f\<in>set (friends u). \<forall>s. live_socket w f = Some s \<longrightarrow>
             (\<exists>t. delivered_to s effs = [FriendOffline userId t] \<and> clock w0 (reads w0) \<le> t))
       \<and> (\<forall>s\<in>set (targets effs). \<exists>f\<in>set (friends u). live_socket w f = Some s)"
proof -
  from on_disconnect_fanout [OF ok usr disc] obtain wX where
    c: "c = Normal" and fan: "forEach_friend Offline userId (friends u) wX = (effs, w)"
    and cl: "clock wX = clock w2" and rd: "reads wX = Suc (reads w2)"
    by blast
  from on_connection_clock [OF conn] run_clock [OF later]
  have cl0: "clock w2 = clock w0" and rd0: "reads w0 \<le> reads w2" by simp_all
  have live: "live_socket wX = live_socket w" using forEach_friend_live(1) [OF fan] by simp
  have tg: "targets effs = List.map_filter (live_socket w) (friends u)"
    using forEach_friend_targets [OF fan] live by simp
  have late: "\<exists>t. e = FriendOffline userId t \<and> clock w0 (reads w0) \<le> t"
    if "Emit s e \<in> set effs" for s e
  proof -
    from forEach_friend_offline_times [OF fan that] obtain k where
      e: "e = FriendOffline userId (clock wX k)" and k: "reads wX \<le> k" by blast
    from k rd rd0 have "reads w0 \<le> k" by simp
    with mono have "clock w0 (reads w0) \<le> clock w0 k" by (rule monoD)
    with e cl cl0 show ?thesis by simp
  qed
  have one: "\<exists>t. delivered_to s effs = [FriendOffline userId t] \<and> clock w0 (reads w0) \<le> t"
    if f: "f \<in> set (friends u)" and s: "live_socket w f = Some s" for f s
  proof -
    have "count_list (targets effs) s = 1"
      using count_live [OF dist socks f s] tg by simp
    then have "\<exists>e. delivered_to s effs = [e]
                 \<and> (\<exists>t. e = FriendOffline userId t \<and> clock w0 (reads w0) \<le> t)"
      using late by (rule delivered_to_single)
    then show ?thesis by blast
  qed
  have none: "\<exists>f\<in>set (friends u). live_socket w f = Some s" if "s \<in> set (targets effs)" for s
    using that tg by (auto simp: set_map_filter)
  from c one none show ?thesis by blast
qed

theorem disconnect_notifies_connected_friends_witness:
  "mono (clock example_world)
   \<and> \<not> fault session_world (calls session_world)
   \<and> \<not> fault session_world (Suc (calls session_world))
   \<and> distinct [''b'', ''c'']
   \<and> one_socket_each (snd (snd (on_disconnect ''a'' session_world))) [''b'', ''c'']
   \<and> live_socket (snd (snd (on_disconnect ''a'' session_world))) ''b'' = Some ''sock-b''
   \<and> fst (on_disconnect ''a'' session_world) = Normal
   \<and> (\<exists>t. delivered_to ''sock-b'' (fst (snd (on_disconnect ''a'' session_world)))
              = [FriendOffline ''a'' t] \<and> 1000 \<le> t)"
proof -
  let ?r1 = "on_connection ''a'' ''sock-a'' example_world"
  let ?u = "(person ''alice'' [''b'', ''c''])
              \<lparr>isOnline := True, lastSeen := 1000,
               currentlyPlaying := Some \<lparr>song = Some ''song-1'', timestamp = 1001\<rparr>\<rparr>"
  let ?r3 = "on_disconnect ''a'' session_world"
  have mono: "mono (clock example_world)"
    by (rule monoI) (simp add: example_world_def)
  have conn: "?r1 = (fst ?r1, fst (snd ?r1), connected_world)"
    by (simp add: connected_world_def)
  have later: "run example_between connected_world
                 = (fst (run example_between connected_world), session_world)"
    by (simp add: session_world_def)
  have ok1: "\<not> fault session_world (calls session_world)"
    and ok2: "\<not> fault session_world (Suc (calls session_world))"
    and usr: "users session_world ''a'' = Some ?u"
    by (simp_all add: session_world_eq example_world_def)
  have fr: "friends ?u = [''b'', ''c'']" by (simp add: person_def)
  have dist: "distinct (friends ?u)" by (simp add: fr)
  have disc: "?r3 = (fst ?r3, fst (snd ?r3), snd (snd ?r3))" by simp
  have lb: "live_socket (snd (snd ?r3)) ''b'' = Some ''sock-b''"
    and lc: "live_socket (snd (snd ?r3)) ''c'' = None"
    by (simp_all add: session_disconnect live_socket_def)
  have socks: "one_socket_each (snd (snd ?r3)) (friends ?u)"
    by (simp add: one_socket_each_def fr lb lc)
  from disconnect_notifies_connected_friends [OF mono conn later ok1 ok2 usr dist disc socks] lb
  have "fst ?r3 = Normal
        \<and> (\<exists>t. delivered_to ''sock-b'' (fst (snd ?r3)) = [FriendOffline ''a'' t]
                 \<and> clock example_world (reads example_world) \<le> t)"
    by (simp add: fr)
  then have "fst ?r3 = Normal
        \<and> (\<exists>t. delivered_to ''sock-b'' (fst (snd ?r3)) = [FriendOffline ''a'' t] \<and> 1000 \<le> t)"
    by (simp add: example_world_def)
  with mono ok1 ok2 socks lb show ?thesis by (simp add: fr)
qed

text \<open>
  C10: when the user's document is absent or its friends array is empty and the
  handler's write and read succeed, the connection, disconnect and now-playing
  handlers return normally and have no effect on the outside at all: no event is
  emitted and nothing is logged.
\<close>

theorem no_friends_no_notification:
  assumes none: "users w userId = None \<or> (\<exists>u. users w userId = Some u \<and> friends u = [])"
    and ok: "\<not> fault w (calls w)" "\<not> fault w (Suc (calls w))"
  shows "fst (on_connection userId socketId w) = Normal
       \<and> fst (snd (on_connection userId socketId w)) = []
       \<and> fst (on_disconnect userId w) = Normal
       \<and> fst (snd (on_disconnect userId w)) = []
       \<and> fst (on_updateCurrentlyPlaying userId (Some d) w) = Normal
       \<and> fst (snd (on_updateCurrentlyPlaying userId (Some d) w)) = []"
proof -
  from none show ?thesis
  proof
    assume "users w userId = None"
    with ok show ?thesis
      by (simp add: on_connection_def on_disconnect_def on_updateCurrentlyPlaying_def
            notify_friends_def db_defs Let_def)
  next
    assume "\<exists>u. users w userId = Some u \<and> friends u = []"
    then obtain u where "users w userId = Some u" "friends u = []" by blast
    with ok show ?thesis
      by (simp add: on_connection_def on_disconnect_def on_updateCurrentlyPlaying_def
            notify_friends_def db_defs Let_def)
  qed
qed

theorem no_friends_no_notification_witness:
  "users example_world ''d'' = Some (person ''dave'' []) \<and> friends (person ''dave'' []) = []
   \<and> \<not> fault example_world (calls example_world)
   \<and> \<not> fault example_world (Suc (calls example_world))
   \<and> fst (snd (on_connection ''d'' ''sock-d'' example_world)) = []
   \<and> fst (snd (on_disconnect ''d'' example_world)) = []
   \<and> fst (snd (on_updateCurrentlyPlaying ''d''
        (Some \<lparr>receiverId = None, msg_content = None, songId = Some ''song-1''\<rparr>) example_world)) = []"
proof -
  have u: "users example_world ''d'' = Some (person ''dave'' [])"
    and f: "friends (person ''dave'' []) = []"
    and h1: "\<not> fault example_world (calls example_world)"
    and h2: "\<not> fault example_world (Suc (calls example_world))"
    by (simp_all add: example_world_def person_def)
  from u f have n: "users example_world ''d'' = None
        \<or> (\<exists>u. users example_world ''d'' = Some u \<and> friends u = [])" by blast
  from no_friends_no_notification [OF n h1 h2] u f h1 h2 show ?thesis by blast
qed

text \<open>
  C2, as the code has it: when the delegated write of a presence or now-playing event
  is rejected, no notification is delivered to any friend. The now-playing handler
  catches the failure, logs it and returns without reaching the fan-out; the
  connection and disconnect handlers do not reach the fan-out either.
\<close>

theorem failed_write_stops_fanout:
  assumes "fault w (calls w)"
  shows "targets (fst (snd (on_connection userId socketId w))) = []
       \<and> targets (fst (snd (on_disconnect userId w))) = []
       \<and> on_updateCurrentlyPlaying userId (Some d) w
           = (Normal, [ConsoleError ''Error updating currently playing:''],
              w\<lparr>reads := Suc (reads w), calls := Suc (calls w)\<rparr>)"
  using assms
  by (simp add: on_connection_def on_disconnect_def on_updateCurrentlyPlaying_def
        playing_failed_def db_defs Let_def)

theorem failed_write_stops_fanout_witness:
  "fault failing_world (calls failing_world)
   \<and> targets (fst (snd (on_connection ''a'' ''sock-a'' failing_world))) = []
   \<and> targets (fst (snd (on_disconnect ''a'' failing_world))) = []
   \<and> fst (snd (on_updateCurrentlyPlaying ''a''
        (Some \<lparr>receiverId = None, msg_content = None, songId = Some ''song-1''\<rparr>) failing_world))
       = [ConsoleError ''Error updating currently playing:'']"
proof -
  have h: "fault failing_world (calls failing_world)"
    by (simp add: failing_world_def example_world_def)
  from failed_write_stops_fanout [OF h] h show ?thesis by simp
qed

text \<open>
  The claim C2 as stated fails: with the write rejected and the friend \<open>b\<close> connected,
  the now-playing handler only logs, and the connection and disconnect handlers emit
  nothing, while the same now-playing event with a working database notifies \<open>b\<close>.
\<close>

theorem fanout_after_failed_write_counterexample:
  "fault failing_world (calls failing_world)
   \<and> users failing_world ''a'' = Some (person ''alice'' [''b'', ''c''])
   \<and> live_socket failing_world ''b'' = Some ''sock-b''
   \<and> on_updateCurrentlyPlaying ''a''
        (Some \<lparr>receiverId = None, msg_content = None, songId = Some ''song-1''\<rparr>) failing_world
       = (Normal, [ConsoleError ''Error updating currently playing:''],
          failing_world\<lparr>reads := 1, calls := 1\<rparr>)
   \<and> fst (snd (on_connection ''a'' ''sock-a'' failing_world)) = []
   \<and> fst (snd (on_disconnect ''a'' failing_world)) = []
   \<and> fst (snd (on_updateCurrentlyPlaying ''a''
        (Some \<lparr>receiverId = None, msg_content = None, songId = Some ''song-1''\<rparr>) example_world))
       = [Emit ''sock-b'' (FriendCurrentlyPlaying ''a'' (Some ''song-1'') 1001)]"
  by (simp add: example_defs failing_world_def playing_failed_def)

section \<open>The registry\<close>

text \<open>
  C7: the registry is a map, so it holds at most one handle for a user. After two
  connections of the same user in sequence, the lookup the handlers use
  (\<open>live_socket\<close>) returns the second handle, the entries of all other users are as
  before the first connection, and the second registration raises nothing: the handler
  returns normally whenever its database calls succeed. The lookup keeps returning the
  second handle after any events that neither connect nor disconnect the user, so a
  typing signal for the user goes to the second socket only. Whatever events follow,
  the lookup never returns the superseded handle again unless that socket is
  registered anew. A disconnect of the user removes the entry, from whichever of its
  sockets it comes, and the lookup then finds nothing.
\<close>

theorem registry_last_connection_wins:
  assumes first: "on_connection userId s1 w0 = (c1, e1, w1)"
    and second: "on_connection userId s2 w1 = (c2, e2, w2)"
    and truthy: "s2 \<noteq> []"
    and later: "run evs w2 = (e3, w3)"
  shows "live_socket w2 userId = Some s2
       \<and> (\<forall>k. k \<noteq> userId \<longrightarrow> connectedUsers w2 k = connectedUsers w0 k)
       \<and> (\<not> fault w1 (calls w1) \<and> \<not> fault w1 (Suc (calls w1)) \<longrightarrow> c2 = Normal)
       \<and> (list_all (\<lambda>i. \<not> registers userId i) evs \<longrightarrow>
            live_socket w3 userId = Some s2
            \<and> on_typing other (Some \<lparr>receiverId = Some userId, msg_content = None, songId = None\<rparr>) w3
                = (Normal, [Emit s2 (UserTyping other)], w3))
       \<and> (s1 \<noteq> s2 \<and> Connection userId s1 \<notin> set evs \<longrightarrow> live_socket w3 userId \<noteq> Some s1)
       \<and> live_socket (snd (snd (on_disconnect userId w3))) userId = None"
proof -
  have r1: "connectedUsers w1 = (connectedUsers w0)(userId \<mapsto> s1)"
    by (rule on_connection_registry [OF first])
  have r2: "connectedUsers w2 = (connectedUsers w1)(userId \<mapsto> s2)"
    by (rule on_connection_registry [OF second])
  from r2 truthy have l2: "live_socket w2 userId = Some s2"
    by (simp add: live_socket_def)
  from r1 r2 have others: "\<forall>k. k \<noteq> userId \<longrightarrow> connectedUsers w2 k = connectedUsers w0 k"
    by simp
  have normal: "\<not> fault w1 (calls w1) \<and> \<not> fault w1 (Suc (calls w1)) \<longrightarrow> c2 = Normal"
    using on_connection_normal [OF _ _ second] by blast
  have quiet: "live_socket w3 userId = Some s2
       \<and> on_typing other (Some \<lparr>receiverId = Some userId, msg_content = None, songId = None\<rparr>) w3
            = (Normal, [Emit s2 (UserTyping other)], w3)"
    if q: "list_all (\<lambda>i. \<not> registers userId i) evs"
  proof -
    from run_registry_quiet [OF later q] r2 have "connectedUsers w3 userId = Some s2" by simp
    with truthy have "live_socket w3 userId = Some s2" by (simp add: live_socket_def)
    then show ?thesis by (simp add: on_typing_def live_socket_of_def)
  qed
  have superseded: "live_socket w3 userId \<noteq> Some s1"
    if d: "s1 \<noteq> s2" and n: "Connection userId s1 \<notin> set evs"
  proof
    assume "live_socket w3 userId = Some s1"
    then have a: "connectedUsers w3 userId = Some s1" by (rule live_socket_SomeD)
    from run_registry_origin [OF later, of userId] r2
    have "connectedUsers w3 userId = None \<or> connectedUsers w3 userId = Some s2
          \<or> (\<exists>s. Connection userId s \<in> set evs \<and> connectedUsers w3 userId = Some s)"
      by simp
    with a d n show False by auto
  qed
  have gone: "live_socket (snd (snd (on_disconnect userId w3))) userId = None"
    using on_disconnect_registry [of userId w3 "fst (on_disconnect userId w3)"
            "fst (snd (on_disconnect userId w3))" "snd (snd (on_disconnect userId w3))"]
    by (simp add: live_socket_def)
  from l2 others normal quiet superseded gone show ?thesis by blast
qed

theorem registry_last_connection_wins_witness:
  "''sock-2'' \<noteq> []
   \<and> list_all (\<lambda>i. \<not> registers ''a'' i) example_after
   \<and> ''sock-1'' \<noteq> ''sock-2''
   \<and> Connection ''a'' ''sock-1'' \<notin> set example_after
   \<and> \<not> fault first_socket_world (calls first_socket_world)
   \<and> \<not> fault first_socket_world (Suc (calls first_socket_world))
   \<and> fst (on_connection ''a'' ''sock-2'' first_socket_world) = Normal
   \<and> live_socket reconnected_world ''a'' = Some ''sock-2''
   \<and> live_socket (snd (run example_after reconnected_world)) ''a'' = Some ''sock-2''
   \<and> live_socket (snd (run example_after reconnected_world)) ''a'' \<noteq> Some ''sock-1''
   \<and> on_typing ''b'' (Some \<lparr>receiverId = Some ''a'', msg_content = None, songId = None\<rparr>)
         (snd (run example_after reconnected_world))
       = (Normal, [Emit ''sock-2'' (UserTyping ''b'')], snd (run example_after reconnected_world))
   \<and> live_socket (snd (snd (on_disconnect ''a'' (snd (run example_after reconnected_world))))) ''a''
       = None"
proof -
  let ?r1 = "on_connection ''a'' ''sock-1'' example_world"
  let ?r2 = "on_connection ''a'' ''sock-2'' first_socket_world"
  let ?r3 = "run example_after reconnected_world"
  have first: "?r1 = (fst ?r1, fst (snd ?r1), first_socket_world)"
    by (simp add: first_socket_world_def)
  have second: "?r2 = (fst ?r2, fst (snd ?r2), reconnected_world)"
    by (simp add: reconnected_world_def)
  have truthy: "''sock-2'' \<noteq> []" by simp
  have later: "?r3 = (fst ?r3, snd ?r3)" by simp
  have quiet: "list_all (\<lambda>i. \<not> registers ''a'' i) example_after"
    and fresh: "''sock-1'' \<noteq> ''sock-2''" "Connection ''a'' ''sock-1'' \<notin> set example_after"
    by (simp_all add: example_after_def)
  have f: "fault first_socket_world = (\<lambda>k. False)"
    by (simp add: first_socket_world_def on_connection_def notify_friends_def db_defs
          example_world_def person_def live_socket_def Let_def)
  from registry_last_connection_wins [OF first second truthy later, where other = "''b''"] quiet fresh f
  show ?thesis by simp
qed

section \<open>Payloads without identifiers\<close>

text \<open>
  C8, as the code has it: no handler validates its payload. A typing event whose
  payload lacks the recipient identifier returns normally, delivers nothing, no error
  event either, and changes nothing. A now-playing event whose payload lacks the song
  identifier returns normally and is processed like any other: the registry is
  unchanged, and apart from a logged error the only effects are
  \<open>friendCurrentlyPlaying\<close> notifications that carry the absent song identifier. Only
  the private-message handler answers a missing payload with an error event, a single
  \<open>messageError\<close> on the originating socket.
\<close>

theorem malformed_payload_handling:
  assumes "receiverId d = None" and "songId d = None"
    and "on_updateCurrentlyPlaying userId (Some d) w = (c, effs, w')"
  shows "on_typing userId (Some d) w = (Normal, [], w)
       \<and> c = Normal \<and> connectedUsers w' = connectedUsers w
       \<and> (\<forall>e\<in>set effs. e = ConsoleError ''Error updating currently playing:''
             \<or> (\<exists>s t. e = Emit s (FriendCurrentlyPlaying userId None t)))
       \<and> on_privateMessage userId socketId None w
           = (Normal,
              [ConsoleError ''Error sending private message:'',
               Emit socketId (MessageError ''Failed to send message'')],
              w)"
proof -
  from assms(1) have "on_typing userId (Some d) w = (Normal, [], w)"
    by (simp add: on_typing_def live_socket_of_def)
  moreover from on_updateCurrentlyPlaying_shape [OF assms(3)] assms(2)
  have "c = Normal \<and> connectedUsers w' = connectedUsers w
       \<and> (\<forall>e\<in>set effs. e = ConsoleError ''Error updating currently playing:''
             \<or> (\<exists>s t. e = Emit s (FriendCurrentlyPlaying userId None t)))"
    by simp
  moreover have "on_privateMessage userId socketId None w
           = (Normal,
              [ConsoleError ''Error sending private message:'',
               Emit socketId (MessageError ''Failed to send message'')],
              w)"
    by (simp add: on_privateMessage_def send_failed_def)
  ultimately show ?thesis by blast
qed

theorem malformed_payload_handling_witness:
  "receiverId empty_payload = None \<and> songId empty_payload = None
   \<and> on_typing ''a'' (Some empty_payload) connected_world = (Normal, [], connected_world)
   \<and> fst (on_updateCurrentlyPlaying ''a'' (Some empty_payload) connected_world) = Normal
   \<and> fst (snd (on_updateCurrentlyPlaying ''a'' (Some empty_payload) connected_world))
       = [Emit ''sock-b'' (FriendCurrentlyPlaying ''a'' None 1002)]"
proof -
  let ?r = "on_updateCurrentlyPlaying ''a'' (Some empty_payload) connected_world"
  have h1: "receiverId empty_payload = None" and h2: "songId empty_payload = None"
    by (simp_all add: empty_payload_def)
  have h3: "?r = (fst ?r, fst (snd ?r), snd (snd ?r))" by simp
  have e: "fst (snd ?r) = [Emit ''sock-b'' (FriendCurrentlyPlaying ''a'' None 1002)]"
    by (simp add: connected_world_def example_defs empty_payload_def)
  from malformed_payload_handling [OF h1 h2 h3] h1 h2 e show ?thesis by blast
qed

text \<open>
  The claim C8 as stated fails: for the connected user \<open>a\<close>, a typing event and a
  now-playing event with an empty payload object deliver no error event to the
  originating socket.
\<close>

theorem malformed_payload_counterexample:
  "receiverId empty_payload = None
   \<and> connectedUsers connected_world ''a'' = Some ''sock-a''
   \<and> fst (snd (on_typing ''a'' (Some empty_payload) connected_world)) = []
   \<and> delivered_to ''sock-a''
        (fst (snd (on_updateCurrentlyPlaying ''a'' (Some empty_payload) connected_world))) = []"
  by (simp add: connected_world_def example_defs empty_payload_def)

section \<open>Friend requests\<close>

text \<open>
  C9: when the accept route answers that the request was accepted and the documents of
  the request's sender and receiver exist, the authenticated user is the receiver,
  the sender is in the receiver's friends array and the receiver is in the sender's, so
  each is a friend of the other exactly when the other is a friend of them. If the
  friends arrays were symmetric before over all users, they are symmetric afterwards.
\<close>

theorem accepted_request_makes_friends:
  assumes "accept_request me requestId w = (Status 200 ''Friend request accepted'', effs, w')"
    and "requests w requestId = Some rq"
    and "users w (req_sender rq) = Some ua" and "users w (req_receiver rq) = Some ub"
  shows "req_receiver rq = me
       \<and> friend_of w' (req_receiver rq) (req_sender rq)
       \<and> friend_of w' (req_sender rq) (req_receiver rq)
       \<and> (friend_of w' (req_sender rq) (req_receiver rq)
            \<longleftrightarrow> friend_of w' (req_receiver rq) (req_sender rq))
       \<and> ((\<forall>x y. friend_of w x y \<longleftrightarrow> friend_of w y x)
            \<longrightarrow> (\<forall>x y. friend_of w' x y \<longleftrightarrow> friend_of w' y x))"
  using accept_request_users(1) [OF assms] accept_request_friend_of [OF assms]
  by blast

theorem accepted_request_makes_friends_witness:
  "fst (accept_request ''a'' ''r1'' example_world) = Status 200 ''Friend request accepted''
   \<and> requests example_world ''r1''
       = Some \<lparr>req_sender = ''d'', req_receiver = ''a'', status = ''pending''\<rparr>
   \<and> users example_world ''d'' = Some (person ''dave'' [])
   \<and> users example_world ''a'' = Some (person ''alice'' [''b'', ''c''])
   \<and> (\<forall>x y. friend_of example_world x y \<longleftrightarrow> friend_of example_world y x)
   \<and> friend_of (snd (snd (accept_request ''a'' ''r1'' example_world))) ''a'' ''d''
   \<and> friend_of (snd (snd (accept_request ''a'' ''r1'' example_world))) ''d'' ''a''
   \<and> (\<forall>x y. friend_of (snd (snd (accept_request ''a'' ''r1'' example_world))) x y
             \<longleftrightarrow> friend_of (snd (snd (accept_request ''a'' ''r1'' example_world))) y x)"
proof -
  let ?r = "accept_request ''a'' ''r1'' example_world"
  let ?rq = "\<lparr>req_sender = ''d'', req_receiver = ''a'', status = ''pending''\<rparr>"
  have h1: "?r = (Status 200 ''Friend request accepted'', fst (snd ?r), snd (snd ?r))"
    by (simp add: example_accept)
  have h2: "requests example_world ''r1'' = Some ?rq"
    and h3: "users example_world (req_sender ?rq) = Some (person ''dave'' [])"
    and h4: "users example_world (req_receiver ?rq) = Some (person ''alice'' [''b'', ''c''])"
    by (simp_all add: example_world_def)
  have sym: "\<forall>x y. friend_of example_world x y \<longleftrightarrow> friend_of example_world y x"
    by (auto simp: friend_of_def example_world_def person_def split: if_splits)
  from accepted_request_makes_friends [OF h1 h2 h3 h4] sym
  have "friend_of (snd (snd ?r)) ''a'' ''d'' \<and> friend_of (snd (snd ?r)) ''d'' ''a''
        \<and> (\<forall>x y. friend_of (snd (snd ?r)) x y \<longleftrightarrow> friend_of (snd (snd ?r)) y x)"
    by simp
  moreover have "fst ?r = Status 200 ''Friend request accepted''"
    by (simp add: example_accept)
  ultimately show ?thesis using h2 h3 h4 sym by simp
qed

end
